theory Spec2Isabelle
  imports Main "HOL-Library.AList"
begin

section \<open>Values\<close>

text \<open>
  The values the processor handles are JavaScript values of JSON shape: \<open>undefined\<close>
  (the absence sentinel), \<open>null\<close>, booleans, numbers, strings, arrays and plain objects.
  Numbers are only cloned and compared for equality by the code under study, so an
  \<open>int\<close> payload stands for them. An object is its list of own enumerable string-keyed
  properties in insertion order (keys are unique in JavaScript, see \<open>wellFormed\<close>), together
  with the value of its hidden property \<open>GET_METADATA_SYMBOL\<close> when one was defined
  on it: the \<open>Map\<close> the accessor closure reads (\<open>childMetadataMap\<close>), or \<open>None\<close>
  when the object has no such property. Keys are ordinary property names: JavaScript
  enumerates integer-like keys first and treats an assignment to \<open>__proto__\<close> specially,
  which the list does not show; only the order of enumeration depends on the former.
\<close>

datatype val =
    Undefined
  | Null
  | Bool bool
  | Num int
  | Str string
  | Arr "val list"
  | Obj "(string \<times> val) list" "(string \<times> pathMetadata) list option"
and pathMetadata =
    PathMetadata (sourceId: val) (path: string) (pvalue: val)

type_synonym fields = "(string \<times> val) list"
type_synonym store = "(string \<times> pathMetadata) list"

text \<open>lodash \<open>isArray\<close> and \<open>isObject\<close> (an array is an object, \<open>null\<close> is not).\<close>

fun isArray :: "val \<Rightarrow> bool" where
  "isArray (Arr xs) = True"
| "isArray v = False"

fun isObject :: "val \<Rightarrow> bool" where
  "isObject (Arr xs) = True"
| "isObject (Obj f a) = True"
| "isObject v = False"


text \<open>\<open>Object.keys(o)\<close>, the own enumerable entries, and the property read \<open>o[key]\<close>.\<close>

fun entries :: "val \<Rightarrow> fields" where
  "entries (Obj f a) = f"
| "entries v = []"

definition keys :: "val \<Rightarrow> string list" where
  "keys v = map fst (entries v)"

definition hasOwn :: "val \<Rightarrow> string \<Rightarrow> bool" where
  "hasOwn v key = (map_of (entries v) key \<noteq> None)"

definition get_field :: "fields \<Rightarrow> string \<Rightarrow> val" where
  "get_field f key = (case map_of f key of Some v \<Rightarrow> v | None \<Rightarrow> Undefined)"

definition get :: "val \<Rightarrow> string \<Rightarrow> val" where
  "get v key = get_field (entries v) key"

text \<open>The hidden accessor \<open>o[GET_METADATA_SYMBOL]\<close>: the store behind it, if there is one.\<close>

fun accessor :: "val \<Rightarrow> store option" where
  "accessor (Obj f a) = a"
| "accessor v = None"

text \<open>
  lodash \<open>cloneDeep\<close> copies the own enumerable properties of an object, recursively.
  The accessor is defined with \<open>enumerable: false\<close>, so no clone carries one.
\<close>

fun cloneDeep :: "val \<Rightarrow> val" where
  "cloneDeep (Arr xs) = Arr (map cloneDeep xs)"
| "cloneDeep (Obj f a) = Obj (map (\<lambda>(k, v). (k, cloneDeep v)) f) None"
| "cloneDeep v = v"

text \<open>
  lodash \<open>isEqual\<close>: arrays are compared element by element, objects by their own
  enumerable properties whatever their order (same number of keys, and every key of the
  left one is a key of the right one with an equal value), everything else by value.
\<close>

fun isEqual :: "val \<Rightarrow> val \<Rightarrow> bool" where
  "isEqual (Arr xs) (Arr ys) = list_all2 isEqual xs ys"
| "isEqual (Obj f a) (Obj g b) =
     (length f = length g \<and>
      list_all (\<lambda>(k, v). case map_of g k of Some w \<Rightarrow> isEqual v w | None \<Rightarrow> False) f)"
| "isEqual v w = (v = w)"


section \<open>Value merge and diff (JsonProcessor.ts)\<close>

datatype ArrayMergeStrategy = Replace | Concat
datatype ArrayDiffStrategy = DReplace | Elements

record MergeOptions =
  arrayStrategy :: "ArrayMergeStrategy option"

record DiffOptions =
  diffArrayStrategy :: "ArrayDiffStrategy option"

subsection \<open>Merge handlers\<close>

definition mergeArrays :: "val list \<Rightarrow> val list \<Rightarrow> MergeOptions \<Rightarrow> val" where
  "mergeArrays arr1 arr2 options =
     (case arrayStrategy options of
        Some Concat \<Rightarrow> Arr (arr1 @ map cloneDeep arr2)
      | _ \<Rightarrow> cloneDeep (Arr arr2))"

text \<open>
  \<open>_mergeValues\<close> and \<open>_mergeObjects\<close>; \<open>mergeKeys\<close> is the \<open>for (const key in obj2)\<close>
  loop of \<open>_mergeObjects\<close>, run on the entries of \<open>obj2\<close> that are left, with \<open>result\<close>
  as its state.
\<close>

fun mergeValues :: "val \<Rightarrow> val \<Rightarrow> MergeOptions \<Rightarrow> val"
and mergeObjects :: "val \<Rightarrow> fields \<Rightarrow> MergeOptions \<Rightarrow> val"
and mergeKeys :: "fields \<Rightarrow> fields \<Rightarrow> MergeOptions \<Rightarrow> fields"
where
  "mergeValues val1 (Arr ys) options =
     (case val1 of Arr xs \<Rightarrow> mergeArrays xs ys options | _ \<Rightarrow> cloneDeep (Arr ys))"
| "mergeValues val1 (Obj g b) options =
     (if isObject val1 \<and> \<not> isArray val1 then mergeObjects val1 g options
      else cloneDeep (Obj g b))"
| "mergeValues val1 Undefined options = cloneDeep Undefined"
| "mergeValues val1 Null options = cloneDeep Null"
| "mergeValues val1 (Bool b) options = cloneDeep (Bool b)"
| "mergeValues val1 (Num n) options = cloneDeep (Num n)"
| "mergeValues val1 (Str s) options = cloneDeep (Str s)"
| "mergeObjects obj1 g options = Obj (mergeKeys (entries (cloneDeep obj1)) g options) None"
| "mergeKeys result [] options = result"
| "mergeKeys result ((key, val2) # rest) options =
     mergeKeys (AList.update key (mergeValues (get_field result key) val2 options) result)
       rest options"

subsection \<open>Diff handlers\<close>

text \<open>The keys of \<open>new Set([...])\<close>: each key once, at its first position.\<close>

fun uniq :: "string list \<Rightarrow> string list" where
  "uniq [] = []"
| "uniq (k # ks) = k # filter (\<lambda>k'. k' \<noteq> k) (uniq ks)"

definition diffArrays :: "val \<Rightarrow> val \<Rightarrow> DiffOptions \<Rightarrow> val" where
  "diffArrays arr1 arr2 options =
     (case diffArrayStrategy options of
        Some Elements \<Rightarrow> (if \<not> isEqual arr1 arr2 then cloneDeep arr2 else Undefined)
      | _ \<Rightarrow> (if \<not> isEqual arr1 arr2 then cloneDeep arr2 else Undefined))"

lemma size_get_field:
  "map_of f key = Some v \<Longrightarrow> size v < Suc (size_list (size_prod (\<lambda>_. 0) size) f)"
  by (induction f) (auto split: if_splits)

lemma size_get:
  "hasOwn obj1 key \<Longrightarrow> size (get obj1 key) < size obj1"
proof (cases obj1)
  case (Obj f a)
  assume "hasOwn obj1 key"
  then obtain v where v: "map_of f key = Some v"
    using Obj by (auto simp: hasOwn_def)
  from size_get_field [OF v] show ?thesis
    using Obj v by (simp add: get_def get_field_def)
qed (simp_all add: hasOwn_def)

text \<open>
  \<open>_diffValues\<close> and \<open>_diffObjects\<close>; \<open>diffKeys\<close> is the \<open>for (const key of allKeys)\<close>
  loop of \<open>_diffObjects\<close>, with the object \<open>diff\<close> under construction as its state.
  The result \<open>Undefined\<close> of \<open>_diffValues\<close> is JavaScript's \<open>undefined\<close>.
\<close>

function diffValues :: "val \<Rightarrow> val \<Rightarrow> DiffOptions \<Rightarrow> val"
and diffKeys :: "val \<Rightarrow> val \<Rightarrow> DiffOptions \<Rightarrow> string list \<Rightarrow> fields \<Rightarrow> fields"
where
  "diffValues val1 val2 options =
     (if isEqual val1 val2 then Undefined
      else if isArray val1 \<and> isArray val2 then diffArrays val1 val2 options
      else if isObject val1 \<and> isObject val2 \<and> \<not> isArray val1 \<and> \<not> isArray val2 then
        (let objDiff = diffKeys val1 val2 options (uniq (keys val1 @ keys val2)) []
         in if length objDiff > 0 then Obj objDiff None else Undefined)
      else cloneDeep val2)"
| "diffKeys obj1 obj2 options [] diff = diff"
| "diffKeys obj1 obj2 options (key # rest) diff =
     diffKeys obj1 obj2 options rest
       (let val1 = get obj1 key; val2 = get obj2 key in
        if \<not> hasOwn obj1 key then AList.update key (cloneDeep val2) diff
        else if \<not> hasOwn obj2 key then AList.update key Undefined diff
        else
          (let valueDiff = diffValues val1 val2 options in
           if valueDiff \<noteq> Undefined \<or> \<not> isEqual val1 val2 then
             (if isObject valueDiff \<and> \<not> isArray valueDiff \<and> length (keys valueDiff) = 0
                 \<and> \<not> isEqual val1 val2
              then AList.update key (cloneDeep val2) diff
              else if valueDiff \<noteq> Undefined then AList.update key valueDiff diff
              else if \<not> isEqual val1 val2 then AList.update key (cloneDeep val2) diff
              else diff)
           else diff))"
  by pat_completeness auto
termination
  by (relation "inv_image (less_than <*lex*> less_than)
        (\<lambda>x. case x of Inl (val1, val2, options) \<Rightarrow> (Suc (size val1), 0)
                   | Inr (obj1, obj2, options, ks, diff) \<Rightarrow> (size obj1, length ks))")
     (auto dest: size_get)

subsection \<open>Public API\<close>



text \<open>\<open>x ?? {}\<close> yields \<open>{}\<close> when \<open>x\<close> is \<open>undefined\<close> or \<open>null\<close>.\<close>

definition diff :: "val \<Rightarrow> val \<Rightarrow> DiffOptions \<Rightarrow> val" where
  "diff obj1 obj2 options =
     (case diffValues obj1 obj2 options of
        Undefined \<Rightarrow> Obj [] None
      | Null \<Rightarrow> Obj [] None
      | d \<Rightarrow> d)"

text \<open>The loop of \<open>diffAll\<close>, for \<open>i\<close> from \<open>0\<close> to \<open>objects.length - 2\<close>.\<close>

definition diffAll :: "val list \<Rightarrow> DiffOptions \<Rightarrow> val" where
  "diffAll objects options =
     (if length objects < 2 then Obj [] None
      else foldl (\<lambda>accumulatedDiff i.
                    if i = 0 then diff (objects ! 0) (objects ! (length objects - 1)) options
                    else accumulatedDiff)
             (Obj [] None) [0 ..< length objects - 1])"

section \<open>Merge with provenance (JsonProcessor.ts)\<close>

record SourceObject =
  id' :: val
  data :: val

record MergeResult =
  mergedObject :: val
  metadata :: "string \<rightharpoonup> pathMetadata"

text \<open>\<open>currentPath.substring(currentPath.lastIndexOf('.') + 1)\<close>\<close>

definition afterLastDot :: "string \<Rightarrow> string" where
  "afterLastDot s = rev (takeWhile (\<lambda>c. c \<noteq> CHR ''.'') (rev s))"

definition parentKeyOf :: "string \<Rightarrow> string" where
  "parentKeyOf currentPath =
     (if CHR ''.'' \<in> set currentPath then afterLastDot currentPath else currentPath)"

text \<open>The closure \<open>mergeValue\<close>; a non-empty string is what JavaScript takes for true.\<close>

definition mergeValue :: "val \<Rightarrow> string \<Rightarrow> val \<Rightarrow> string option \<Rightarrow> pathMetadata" where
  "mergeValue sid currentPath v key =
     (let finalPath = (case key of
                    Some k \<Rightarrow> (if currentPath \<noteq> [] then currentPath @ ''.'' @ k else k)
                  | None \<Rightarrow> currentPath)
      in PathMetadata sid finalPath (cloneDeep v))"

definition cloneMeta :: "pathMetadata \<Rightarrow> pathMetadata" where
  "cloneMeta m = PathMetadata (cloneDeep (sourceId m)) (path m) (cloneDeep (pvalue m))"

text \<open>
  The new \<open>childMetadataMap\<close>, filled from the target's accessor for the keys of the
  target (lines 304 to 315).
\<close>

definition seedChildMap :: "val \<Rightarrow> store" where
  "seedChildMap target =
     (case accessor target of
        Some getTargetMeta \<Rightarrow>
          foldl (\<lambda>childMetadataMap key.
                   case map_of getTargetMeta key of
                     Some targetMeta \<Rightarrow> AList.update key (cloneMeta targetMeta) childMetadataMap
                   | None \<Rightarrow> childMetadataMap)
            [] (keys target)
      | None \<Rightarrow> [])"

definition setParent :: "string \<Rightarrow> pathMetadata \<Rightarrow> store \<Rightarrow> store" where
  "setParent parentKey m parentChildMetadataMap =
     (if parentKey \<noteq> [] then AList.update parentKey m parentChildMetadataMap
      else parentChildMetadataMap)"

text \<open>
  \<open>_mergeRecursiveWithMetadata\<close> returns the merged value; the \<open>Map\<close> of the parent,
  which it updates in place, is returned with it. \<open>mergeSourceKeys\<close> is the loop
  \<open>for (const key of sourceKeys)\<close> on the entries of the source that are left, with
  \<open>resultObject\<close> and \<open>childMetadataMap\<close> as its state.
\<close>

fun mergeRecursiveWithMetadata ::
  "val \<Rightarrow> val \<Rightarrow> val \<Rightarrow> MergeOptions \<Rightarrow> string \<Rightarrow> store \<Rightarrow> val \<times> store"
and mergeSourceKeys ::
  "fields \<Rightarrow> val \<Rightarrow> MergeOptions \<Rightarrow> string \<Rightarrow> fields \<Rightarrow> store \<Rightarrow> fields \<times> store"
where
  "mergeRecursiveWithMetadata target Undefined sid options currentPath parentMap =
     (let parentKey = parentKeyOf currentPath in
      (target,
       if parentKey \<noteq> [] \<and> map_of parentMap parentKey \<noteq> None
       then AList.delete parentKey parentMap else parentMap))"
| "mergeRecursiveWithMetadata target (Arr xs) sid options currentPath parentMap =
     (let parentKey = parentKeyOf currentPath;
          mergedArray =
            (case target of
               Arr ts \<Rightarrow>
                 (if arrayStrategy options = Some Concat then Arr (ts @ map cloneDeep xs)
                  else cloneDeep (Arr xs))
             | _ \<Rightarrow> cloneDeep (Arr xs))
      in (mergedArray,
          setParent parentKey (mergeValue sid currentPath mergedArray None) parentMap))"
| "mergeRecursiveWithMetadata target (Obj sourceFields sa) sid options currentPath parentMap =
     (let parentKey = parentKeyOf currentPath;
          resultFields0 =
            (if isObject target \<and> \<not> isArray target then entries (cloneDeep target) else []);
          childMap0 =
            (if isObject target \<and> \<not> isArray target then seedChildMap target else [])
      in case mergeSourceKeys sourceFields sid options currentPath resultFields0 childMap0 of
           (resultFields, childMetadataMap) \<Rightarrow>
             (let resultObject = Obj resultFields (Some childMetadataMap)
              in (resultObject,
                  setParent parentKey (mergeValue sid currentPath resultObject None)
                    parentMap)))"
| "mergeRecursiveWithMetadata target Null sid options currentPath parentMap =
     (let primitiveValue = cloneDeep Null in
      (primitiveValue,
       setParent (parentKeyOf currentPath)
         (mergeValue sid currentPath primitiveValue None) parentMap))"
| "mergeRecursiveWithMetadata target (Bool b) sid options currentPath parentMap =
     (let primitiveValue = cloneDeep (Bool b) in
      (primitiveValue,
       setParent (parentKeyOf currentPath)
         (mergeValue sid currentPath primitiveValue None) parentMap))"
| "mergeRecursiveWithMetadata target (Num n) sid options currentPath parentMap =
     (let primitiveValue = cloneDeep (Num n) in
      (primitiveValue,
       setParent (parentKeyOf currentPath)
         (mergeValue sid currentPath primitiveValue None) parentMap))"
| "mergeRecursiveWithMetadata target (Str s) sid options currentPath parentMap =
     (let primitiveValue = cloneDeep (Str s) in
      (primitiveValue,
       setParent (parentKeyOf currentPath)
         (mergeValue sid currentPath primitiveValue None) parentMap))"
| "mergeSourceKeys [] sid options currentPath resultFields childMap =
     (resultFields, childMap)"
| "mergeSourceKeys ((key, sourceValue) # rest) sid options currentPath resultFields childMap =
     (let targetValue = get_field resultFields key;
          propertyPath = (if currentPath \<noteq> [] then currentPath @ ''.'' @ key else key)
      in if sourceValue = Undefined
         then mergeSourceKeys rest sid options currentPath
                (AList.delete key resultFields) (AList.delete key childMap)
         else (case mergeRecursiveWithMetadata targetValue sourceValue sid options
                      propertyPath childMap of
                 (merged, childMap') \<Rightarrow>
                   mergeSourceKeys rest sid options currentPath
                     (AList.update key merged resultFields) childMap'))"

text \<open>
  The closure \<open>collectMetadata\<close>, on the global \<open>metadata\<close> object it writes to.
  \<open>typeof\<close> is \<open>'object'\<close> for arrays too, whose keys are their indices and which
  have no accessor: the walk goes through their elements. \<open>collectEntries\<close> is the loop
  over the keys of an object, \<open>collectElements\<close> the one over the indices of an array.
\<close>

fun collectMetadata :: "val \<Rightarrow> (string \<rightharpoonup> pathMetadata) \<Rightarrow> (string \<rightharpoonup> pathMetadata)"
and collectEntries ::
  "store option \<Rightarrow> fields \<Rightarrow> (string \<rightharpoonup> pathMetadata) \<Rightarrow> (string \<rightharpoonup> pathMetadata)"
and collectElements :: "val list \<Rightarrow> (string \<rightharpoonup> pathMetadata) \<Rightarrow> (string \<rightharpoonup> pathMetadata)"
where
  "collectMetadata (Obj f a) md = collectEntries a f md"
| "collectMetadata (Arr xs) md = collectElements xs md"
| "collectMetadata Undefined md = md"
| "collectMetadata Null md = md"
| "collectMetadata (Bool b) md = md"
| "collectMetadata (Num n) md = md"
| "collectMetadata (Str s) md = md"
| "collectEntries a [] md = md"
| "collectEntries a ((key, v) # rest) md =
     (let metadataForKey = (case a of Some getMeta \<Rightarrow> map_of getMeta key | None \<Rightarrow> None);
          md' = (case metadataForKey of Some m \<Rightarrow> md(path m \<mapsto> m) | None \<Rightarrow> md)
      in collectEntries a rest (collectMetadata v md'))"
| "collectElements [] md = md"
| "collectElements (v # rest) md = collectElements rest (collectMetadata v md)"

definition mergeAllWithMetadata :: "SourceObject list \<Rightarrow> MergeOptions \<Rightarrow> MergeResult" where
  "mergeAllWithMetadata sourceObjects options =
     (if length sourceObjects = 0 then \<lparr>mergedObject = Obj [] None, metadata = Map.empty\<rparr>
      else foldl
             (\<lambda>r sourceObject.
                let finalMergedData =
                      fst (mergeRecursiveWithMetadata (mergedObject r) (data sourceObject)
                             (id' sourceObject) options [] [])
                in \<lparr>mergedObject = finalMergedData,
                    metadata = collectMetadata finalMergedData (metadata r)\<rparr>)
             \<lparr>mergedObject = Obj [] None, metadata = Map.empty\<rparr> sourceObjects)"

section \<open>Schema traversal (SchemaTraverser.ts)\<close>










subsection \<open>Keyword handlers (schema)\<close>




























subsection \<open>Keyword handlers (data)\<close>




















section \<open>Annotation of the schema (SchemaEnricher.ts)\<close>





section \<open>Properties of the value merge and diff\<close>

lemma foldl_keep:
  "\<forall>i \<in> set ns. i \<noteq> (0::nat) \<Longrightarrow> foldl (\<lambda>acc i. if i = 0 then d else acc) a ns = a"
  by (induction ns arbitrary: a) auto








text \<open>
  Claim C8. For a list of at least two values, \<open>diffAll\<close> is the diff of its first and
  its last element: whatever stands between them, and whether anything does, the result
  is the same.
\<close>

theorem diffAll_first_last:
  "(2 \<le> length objects \<longrightarrow>
      diffAll objects options = diff (hd objects) (last objects) options)
   \<and> diffAll (x # mid @ [y]) options = diff x y options
   \<and> diffAll (x # mid @ [y]) options = diffAll [x, y] options"
proof -
  have main: "diffAll objs options = diff (hd objs) (last objs) options"
    if "2 \<le> length objs" for objs
  proof -
    from that obtain n where n: "length objs - 1 = Suc n"
      by (cases "length objs - 1") auto
    have up: "[0 ..< length objs - 1] = 0 # [Suc 0 ..< Suc n]"
      using n by (simp add: upt_rec)
    have ne: "objs \<noteq> []" using that by auto
    have "diffAll objs options =
        foldl (\<lambda>acc i. if i = 0 then diff (objs ! 0) (objs ! (length objs - 1)) options else acc)
          (diff (objs ! 0) (objs ! (length objs - 1)) options) [Suc 0 ..< Suc n]"
      using that unfolding diffAll_def up by simp
    also have "\<dots> = diff (objs ! 0) (objs ! (length objs - 1)) options"
      by (rule foldl_keep) auto
    finally show ?thesis
      using ne by (simp add: hd_conv_nth last_conv_nth)
  qed
  have "diffAll (x # mid @ [y]) options = diff x y options"
    using main [of "x # mid @ [y]"] by simp
  moreover have "diffAll [x, y] options = diff x y options"
    using main [of "[x, y]"] by simp
  ultimately show ?thesis using main [of objects] by simp
qed

theorem diffAll_first_last_witness:
  "2 \<le> length [Num 1, Str ''mid'', Num 2]
   \<and> diffAll [Num 1, Str ''mid'', Num 2] \<lparr>diffArrayStrategy = None\<rparr>
       = diff (Num 1) (Num 2) \<lparr>diffArrayStrategy = None\<rparr>
   \<and> diffAll [Num 1, Str ''mid'', Num 2] \<lparr>diffArrayStrategy = None\<rparr> = Num 2"
  using diffAll_first_last [of "[Num 1, Str ''mid'', Num 2]" "\<lparr>diffArrayStrategy = None\<rparr>"]
  by (simp add: diff_def)

text \<open>
  Claim C10. On a list of fewer than two elements, the empty list or a single value,
  \<open>diffAll\<close> returns the empty mapping, for every diff options value.
\<close>

theorem diffAll_short:
  "diffAll [] options = Obj [] None \<and> diffAll [x] options = Obj [] None"
  by (simp add: diffAll_def)

section \<open>Properties of the merge with provenance\<close>

lemmas mergeWithMetadata_eval =
  mergeAllWithMetadata_def Let_def parentKeyOf_def afterLastDot_def mergeValue_def
  setParent_def seedChildMap_def keys_def get_field_def cloneMeta_def hasOwn_def


definition propertyPath :: "string \<Rightarrow> string \<Rightarrow> string" where
  "propertyPath currentPath key = (if currentPath \<noteq> [] then currentPath @ ''.'' @ key else key)"











text \<open>
  Claim C1, at its own input: \<open>S1\<close> with data \<open>{x: 1}\<close>, then \<open>S2\<close> with data
  \<open>{x: undefined}\<close>. The merged value has no key \<open>x\<close>, and the accessor of the root
  has no entry for \<open>x\<close>; but the global provenance map, which is filled after every
  pass and never purged, still holds the entry that the first pass wrote for path \<open>x\<close>.
\<close>

theorem deletion_leaves_stale_entry:
  "let r = mergeAllWithMetadata
             [\<lparr>id' = i1, data = Obj [(''x'', Num 1)] None\<rparr>,
              \<lparr>id' = i2, data = Obj [(''x'', Undefined)] None\<rparr>] options
   in \<not> hasOwn (mergedObject r) ''x''
      \<and> accessor (mergedObject r) = Some []
      \<and> metadata r ''x'' = Some (PathMetadata i1 ''x'' (Num 1))"
  by (simp add: mergeWithMetadata_eval)

text \<open>
  Claim C2. For \<open>S1\<close> with data \<open>{a: {b: 1}}\<close> and \<open>S2\<close> with data \<open>{a: {c: 2}}\<close>,
  the global provenance map of the merge of \<open>[S1, S2]\<close> gives the id of \<open>S2\<close> for path
  \<open>a\<close>, the id of \<open>S1\<close> for path \<open>a.b\<close> and the id of \<open>S2\<close> for path \<open>a.c\<close>.
\<close>

theorem last_writer_wins:
  "let r = mergeAllWithMetadata
             [\<lparr>id' = i1, data = Obj [(''a'', Obj [(''b'', Num 1)] None)] None\<rparr>,
              \<lparr>id' = i2, data = Obj [(''a'', Obj [(''c'', Num 2)] None)] None\<rparr>] options
   in map_option sourceId (metadata r ''a'') = Some i2
      \<and> map_option sourceId (metadata r ''a.b'') = Some i1
      \<and> map_option sourceId (metadata r ''a.c'') = Some i2"
  by (simp add: mergeWithMetadata_eval)





subsection \<open>Provenance of the paths of the merged value\<close>






definition writeAll :: "pathMetadata list \<Rightarrow> (string \<rightharpoonup> pathMetadata) \<Rightarrow> (string \<rightharpoonup> pathMetadata)" where
  "writeAll ms md = foldl (\<lambda>md m. md(path m \<mapsto> m)) md ms"


lemma writeAll_Nil [simp]: "writeAll [] md = md"
  by (simp add: writeAll_def)

lemma writeAll_Cons [simp]: "writeAll (m # ms) md = writeAll ms (md(path m \<mapsto> m))"
  by (simp add: writeAll_def)
















lemma isMapping_Obj: "isObject t \<and> \<not> isArray t \<longleftrightarrow> (\<exists>tf ta. t = Obj tf ta)"
  by (cases t) simp_all







































subsection \<open>Diff and merge on flat mappings\<close>

























section \<open>Properties of the schema traversal\<close>




end
